theory Spec2Isabelle
  imports Main "HOL-Library.Word"
begin

unbundle bit_operations_syntax

section \<open>Kernel types, constants and macros used by macb\_uio.c\<close>

text \<open>
  The driver is built against the Linux headers, which are not part of the
  repository. What it uses of them is written down here as the headers define
  it; the two configuration values (the page shift and \<open>MAX_UIO_MAPS\<close>)
  are parameters of the functions that depend on them.
\<close>

type_synonym phys_addr_t = "64 word"
type_synonym resource_size_t = "64 word"
type_synonym iomem_ptr = "64 word"  \<comment> \<open>\<open>void __iomem *\<close>; \<open>0\<close> is \<open>NULL\<close>\<close>
type_synonym atomic_t = "32 word"   \<comment> \<open>a C \<open>int\<close> whose arithmetic wraps\<close>

text \<open>
  A \<open>struct task_struct *\<close>: \<open>NULL\<close>, the address of a task, or
  \<open>Err_task e\<close>, the pointer whose address is the integer \<open>e\<close>, for an
  \<open>e\<close> other than 0 that is not the address of a task. The kernel's
  \<open>ERR_PTR\<close> casts an errno to a pointer, so \<open>ERR_PTR(0)\<close> is \<open>NULL\<close>, and
  \<open>IS_ERR\<close> holds of the addresses \<open>-MAX_ERRNO, ..., -1\<close> only, where
  \<open>MAX_ERRNO\<close> is 4095. \<open>kthread_create\<close> returns a task or, when it fails,
  \<open>ERR_PTR\<close> of a negative errno such as \<open>-ENOMEM\<close>.
\<close>

datatype task_ptr = NULL_task | Task nat | Err_task int

definition ERR_PTR :: "int \<Rightarrow> task_ptr" where
  "ERR_PTR e = (if e = 0 then NULL_task else Err_task e)"

fun IS_ERR :: "task_ptr \<Rightarrow> bool" where
  "IS_ERR (Err_task e) = (- 4095 \<le> e \<and> e \<le> - 1)"
| "IS_ERR _ = False"

definition ENOMEM :: int where
  "ENOMEM = 12"

definition ENOENT :: int where
  "ENOENT = 2"

definition EINVAL :: int where
  "EINVAL = 22"

definition PAGE_SIZE :: "nat \<Rightarrow> 64 word" where
  "PAGE_SIZE page_shift = push_bit page_shift 1"

definition PAGE_MASK :: "nat \<Rightarrow> 64 word" where
  "PAGE_MASK page_shift = NOT (PAGE_SIZE page_shift - 1)"

definition PAGE_ALIGN :: "nat \<Rightarrow> 64 word \<Rightarrow> 64 word" where
  "PAGE_ALIGN page_shift x = (x + (PAGE_SIZE page_shift - 1)) AND PAGE_MASK page_shift"

record resource =
  start :: resource_size_t
  end_res :: resource_size_t

definition resource_size :: "resource \<Rightarrow> resource_size_t" where
  "resource_size res = end_res res - start res + 1"

datatype uio_memtype = UIO_MEM_NONE | UIO_MEM_PHYS

record uio_mem =
  name :: string
  addr :: phys_addr_t
  size_mem :: resource_size_t
  memtype :: uio_memtype
  internal_addr :: iomem_ptr

record uio_info =
  mem :: "uio_mem list"  \<comment> \<open>the array \<open>mem[MAX_UIO_MAPS]\<close>\<close>

section \<open>The driver's data\<close>

record rte_uio_platform_dev =
  info :: uio_info
  refcnt :: atomic_t
  poll_task :: task_ptr

text \<open>
  A platform device, as far as the driver looks at it: the answers of
  \<open>platform_get_resource(dev, IORESOURCE_MEM, i)\<close> for \<open>i = 0, 1, ...\<close>
  (\<open>None\<close> is \<open>NULL\<close>, also beyond the end of the list), and the driver data
  pointer.
\<close>

record platform_device =
  mem_resources :: "resource option list"
  drvdata :: "rte_uio_platform_dev option"

definition platform_get_resource :: "platform_device \<Rightarrow> nat \<Rightarrow> resource option" where
  "platform_get_resource dev i =
     (if i < length (mem_resources dev) then mem_resources dev ! i else None)"

text \<open>
  The calls into the kernel that change something outside the driver's own
  records, in the order they are made. \<open>Kthread_create t\<close> is a call of
  \<open>kthread_create\<close> that returned \<open>t\<close>; \<open>Ioremap a s p\<close> is a call
  \<open>ioremap(a, s)\<close> that returned \<open>p\<close>; \<open>Kfree u\<close> frees the device record
  whose contents are \<open>u\<close> at that moment.
\<close>

datatype kcall =
    Kthread_create task_ptr
  | Kthread_bind task_ptr nat
  | Wake_up_process task_ptr
  | Kthread_stop task_ptr
  | Ioremap phys_addr_t resource_size_t iomem_ptr
  | Iounmap iomem_ptr
  | Sysfs_remove_group
  | Uio_unregister_device
  | Kfree rte_uio_platform_dev

section \<open>Session: open and release\<close>

text \<open>
  \<open>macb_uio_open\<close>. The first argument is what \<open>kthread_create\<close> returns if
  it is called. \<open>atomic_inc_return\<close> adds one and yields the new value.
\<close>

definition macb_uio_open ::
  "task_ptr \<Rightarrow> rte_uio_platform_dev \<Rightarrow> kcall list \<Rightarrow> int \<times> rte_uio_platform_dev \<times> kcall list" where
  "macb_uio_open kt udev tr =
     (let udev1 = udev\<lparr>refcnt := refcnt udev + 1\<rparr> in
      if refcnt udev1 \<noteq> 1 then (0, udev1, tr)
      else
        let udev2 = udev1\<lparr>poll_task := kt\<rparr> in
        (0, udev2,
         tr @ [Kthread_create kt, Kthread_bind (poll_task udev2) 0,
               Wake_up_process (poll_task udev2)]))"

text \<open>
  \<open>macb_uio_release\<close>. \<open>atomic_dec_and_test\<close> subtracts one and tells whether
  the new value is zero; \<open>kthread_stop\<close> asks the thread to stop and waits for it.
\<close>

definition macb_uio_release ::
  "rte_uio_platform_dev \<Rightarrow> kcall list \<Rightarrow> int \<times> rte_uio_platform_dev \<times> kcall list" where
  "macb_uio_release udev tr =
     (let udev1 = udev\<lparr>refcnt := refcnt udev - 1\<rparr> in
      if refcnt udev1 = 0 then (0, udev1, tr @ [Kthread_stop (poll_task udev1)])
      else (0, udev1, tr))"

section \<open>Region mapping\<close>

text \<open>\<open>macb_uio_release_iomem\<close>: the loop from index \<open>i\<close> on.\<close>

function macb_uio_release_iomem_loop ::
  "nat \<Rightarrow> nat \<Rightarrow> uio_info \<Rightarrow> kcall list \<Rightarrow> kcall list" where
  "macb_uio_release_iomem_loop max_uio_maps i uinfo tr =
     (if i < max_uio_maps then
        macb_uio_release_iomem_loop max_uio_maps (i + 1) uinfo
          (if internal_addr (mem uinfo ! i) \<noteq> 0
           then tr @ [Iounmap (internal_addr (mem uinfo ! i))] else tr)
      else tr)"
  by pat_completeness auto
termination
  by (relation "measure (\<lambda>(n, i, uinfo, tr). n - i)") auto

declare macb_uio_release_iomem_loop.simps [simp del]

definition macb_uio_release_iomem :: "nat \<Rightarrow> uio_info \<Rightarrow> kcall list \<Rightarrow> kcall list" where
  "macb_uio_release_iomem max_uio_maps uinfo tr =
     macb_uio_release_iomem_loop max_uio_maps 0 uinfo tr"

text \<open>
  \<open>macb_uio_setup_iomem\<close>: the loop from index \<open>i\<close> on, with \<open>iom\<close> regions
  filled so far. \<open>ioremap\<close> is the kernel's answer to each mapping request
  (\<open>0\<close> when it fails). The loop returns \<open>iom\<close> with the array and the calls.
\<close>

function macb_uio_setup_iomem_loop ::
  "nat \<Rightarrow> nat \<Rightarrow> (phys_addr_t \<Rightarrow> resource_size_t \<Rightarrow> iomem_ptr) \<Rightarrow> platform_device \<Rightarrow>
   nat \<Rightarrow> nat \<Rightarrow> uio_mem list \<Rightarrow> kcall list \<Rightarrow> nat \<times> uio_mem list \<times> kcall list" where
  "macb_uio_setup_iomem_loop page_shift max_uio_maps ioremap dev i iom m tr =
     (if i < max_uio_maps then
        (case platform_get_resource dev i of
           None \<Rightarrow> macb_uio_setup_iomem_loop page_shift max_uio_maps ioremap dev (i + 1) iom m tr
         | Some res \<Rightarrow>
             let m1 = m[iom := (m ! iom)\<lparr>memtype := UIO_MEM_PHYS\<rparr>];
                 m2 = m1[iom := (m1 ! iom)\<lparr>addr := start res AND PAGE_MASK page_shift\<rparr>];
                 m3 = m2[iom := (m2 ! iom)\<lparr>size_mem := PAGE_ALIGN page_shift (resource_size res)\<rparr>];
                 m4 = m3[iom := (m3 ! iom)\<lparr>name := ''macb_regs''\<rparr>];
                 p = ioremap (addr (m4 ! iom)) (size_mem (m4 ! iom));
                 m5 = m4[iom := (m4 ! iom)\<lparr>internal_addr := p\<rparr>]
             in macb_uio_setup_iomem_loop page_shift max_uio_maps ioremap dev (i + 1) (iom + 1) m5
                  (tr @ [Ioremap (addr (m4 ! iom)) (size_mem (m4 ! iom)) p]))
      else (iom, m, tr))"
  by pat_completeness auto
termination
  by (relation "measure (\<lambda>(ps, n, f, dev, i, iom, m, tr). n - i)") auto

declare macb_uio_setup_iomem_loop.simps [simp del]

definition macb_uio_setup_iomem ::
  "nat \<Rightarrow> nat \<Rightarrow> (phys_addr_t \<Rightarrow> resource_size_t \<Rightarrow> iomem_ptr) \<Rightarrow> platform_device \<Rightarrow>
   uio_info \<Rightarrow> kcall list \<Rightarrow> int \<times> uio_info \<times> kcall list" where
  "macb_uio_setup_iomem page_shift max_uio_maps ioremap dev uinfo tr =
     (case macb_uio_setup_iomem_loop page_shift max_uio_maps ioremap dev 0 0 (mem uinfo) tr of
        (iom, m, tr') \<Rightarrow> ((if iom \<noteq> 0 then 0 else - ENOENT), uinfo\<lparr>mem := m\<rparr>, tr'))"

section \<open>Removal\<close>

text \<open>
  \<open>macb_uio_remove\<close> returns its result, the platform device (whose driver
  data it clears) and the calls made.
\<close>

definition macb_uio_remove ::
  "nat \<Rightarrow> platform_device \<Rightarrow> kcall list \<Rightarrow> int \<times> platform_device \<times> kcall list" where
  "macb_uio_remove max_uio_maps dev tr =
     (case drvdata dev of
        None \<Rightarrow> (- EINVAL, dev, tr)
      | Some udev \<Rightarrow>
          (case macb_uio_release udev tr of
             (r, udev1, tr1) \<Rightarrow>
               let tr2 = tr1 @ [Sysfs_remove_group];
                   tr3 = tr2 @ [Uio_unregister_device];
                   tr4 = macb_uio_release_iomem max_uio_maps (info udev1) tr3;
                   dev1 = dev\<lparr>drvdata := None\<rparr>
               in (0, dev1, tr4 @ [Kfree udev1])))"

section \<open>Sequences of session calls, and what the calls add up to\<close>

text \<open>
  The record \<open>macb_uio_probe\<close> hands to the UIO framework: \<open>kzalloc\<close>
  zeroes it (so \<open>poll_task\<close> is \<open>NULL\<close>) and \<open>atomic_set\<close> puts the count
  at 0.
\<close>

definition udev_after_probe :: "uio_info \<Rightarrow> rte_uio_platform_dev" where
  "udev_after_probe uinfo = \<lparr>info = uinfo, refcnt = 0, poll_task = NULL_task\<rparr>"

text \<open>
  The framework calls \<open>open\<close> and \<open>release\<close> one after the other on the same
  record; \<open>Open kt\<close> carries what \<open>kthread_create\<close> answers during that call.
\<close>

datatype session_op = Open task_ptr | Close

fun session_step ::
  "session_op \<Rightarrow> rte_uio_platform_dev \<times> kcall list \<Rightarrow> rte_uio_platform_dev \<times> kcall list" where
  "session_step (Open kt) (udev, tr) = snd (macb_uio_open kt udev tr)"
| "session_step Close (udev, tr) = snd (macb_uio_release udev tr)"

fun session_run ::
  "session_op list \<Rightarrow> rte_uio_platform_dev \<times> kcall list \<Rightarrow> rte_uio_platform_dev \<times> kcall list" where
  "session_run [] s = s"
| "session_run (x # xs) s = session_run xs (session_step x s)"

fun is_worker_start :: "kcall \<Rightarrow> bool" where
  "is_worker_start (Wake_up_process t) = True"
| "is_worker_start _ = False"

definition workers_started :: "kcall list \<Rightarrow> nat" where
  "workers_started tr = length (filter is_worker_start tr)"

fun is_task :: "task_ptr \<Rightarrow> bool" where
  "is_task (Task n) = True"
| "is_task _ = False"

fun creation_succeeds :: "session_op \<Rightarrow> bool" where
  "creation_succeeds (Open kt) = is_task kt"
| "creation_succeeds Close = True"

text \<open>
  The poll threads that are running after a sequence of calls: a thread runs
  from its \<open>wake_up_process\<close> until \<open>kthread_stop\<close> has returned for it.
\<close>

fun track_worker :: "task_ptr list \<Rightarrow> kcall \<Rightarrow> task_ptr list" where
  "track_worker ws (Wake_up_process t) = (if is_task t then ws @ [t] else ws)"
| "track_worker ws (Kthread_stop t) = remove1 t ws"
| "track_worker ws _ = ws"

definition running_workers :: "kcall list \<Rightarrow> task_ptr list" where
  "running_workers tr = foldl track_worker [] tr"

text \<open>
  What holds of the record and the calls after \<open>n\<close> session calls on a
  freshly probed device.
\<close>

definition session_inv :: "nat \<Rightarrow> rte_uio_platform_dev \<times> kcall list \<Rightarrow> bool" where
  "session_inv n s \<longleftrightarrow>
     - int n \<le> sint (refcnt (fst s)) \<and> sint (refcnt (fst s)) \<le> int n \<and>
     running_workers (snd s) = (if 0 < sint (refcnt (fst s)) then [poll_task (fst s)] else []) \<and>
     (0 < sint (refcnt (fst s)) \<longrightarrow> is_task (poll_task (fst s)))"

text \<open>
  The resources that \<open>platform_get_resource\<close> finds at the indices below
  \<open>max_uio_maps\<close>, in index order, and the region the setup loop writes for one
  of them.
\<close>

definition present_resources :: "platform_device \<Rightarrow> nat \<Rightarrow> resource list" where
  "present_resources dev max_uio_maps =
     List.map_filter (platform_get_resource dev) [0..<max_uio_maps]"

definition region_of ::
  "nat \<Rightarrow> (phys_addr_t \<Rightarrow> resource_size_t \<Rightarrow> iomem_ptr) \<Rightarrow> resource \<Rightarrow> uio_mem" where
  "region_of page_shift ioremap res =
     \<lparr>name = ''macb_regs'',
      addr = start res AND PAGE_MASK page_shift,
      size_mem = PAGE_ALIGN page_shift (resource_size res),
      memtype = UIO_MEM_PHYS,
      internal_addr =
        ioremap (start res AND PAGE_MASK page_shift) (PAGE_ALIGN page_shift (resource_size res))\<rparr>"

text \<open>The \<open>ioremap\<close> call the setup loop makes for a resource, with its answer.\<close>

definition ioremap_call ::
  "nat \<Rightarrow> (phys_addr_t \<Rightarrow> resource_size_t \<Rightarrow> iomem_ptr) \<Rightarrow> resource \<Rightarrow> kcall" where
  "ioremap_call page_shift ioremap res =
     Ioremap (addr (region_of page_shift ioremap res)) (size_mem (region_of page_shift ioremap res))
       (internal_addr (region_of page_shift ioremap res))"

text \<open>An entry of \<open>mem\<close> as \<open>kzalloc\<close> leaves it.\<close>

definition zeroed_mem :: uio_mem where
  "zeroed_mem = \<lparr>name = [], addr = 0, size_mem = 0, memtype = UIO_MEM_NONE, internal_addr = 0\<rparr>"

text \<open>The non-null mapped pointers of the regions, in index order.\<close>

definition mapped_pointers :: "uio_info \<Rightarrow> iomem_ptr list" where
  "mapped_pointers uinfo = filter (\<lambda>p. p \<noteq> 0) (map internal_addr (mem uinfo))"

section \<open>Facts about the counter\<close>

lemma sint_inc: "sint (x :: 32 word) < 2147483647 \<Longrightarrow> sint (x + 1) = sint x + 1"
  using sint_range_size[of x, simplified word_size]
  by (simp add: sint_word_ariths signed_take_bit_int_eq_self)

lemma sint_dec: "- 2147483648 < sint (x :: 32 word) \<Longrightarrow> sint (x - 1) = sint x - 1"
  using sint_range_size[of x, simplified word_size]
  by (simp add: sint_word_ariths signed_take_bit_int_eq_self)

lemma open_first:
  "refcnt udev + 1 = 1 \<Longrightarrow>
   macb_uio_open kt udev tr =
     (0, udev\<lparr>refcnt := 1, poll_task := kt\<rparr>,
      tr @ [Kthread_create kt, Kthread_bind kt 0, Wake_up_process kt])"
  by (simp add: macb_uio_open_def Let_def)

lemma open_later:
  "refcnt udev + 1 \<noteq> 1 \<Longrightarrow>
   macb_uio_open kt udev tr = (0, udev\<lparr>refcnt := refcnt udev + 1\<rparr>, tr)"
  by (simp add: macb_uio_open_def Let_def)

lemma release_last:
  "refcnt udev - 1 = 0 \<Longrightarrow>
   macb_uio_release udev tr = (0, udev\<lparr>refcnt := 0\<rparr>, tr @ [Kthread_stop (poll_task udev)])"
  by (simp add: macb_uio_release_def Let_def)

lemma release_other:
  "refcnt udev - 1 \<noteq> 0 \<Longrightarrow>
   macb_uio_release udev tr = (0, udev\<lparr>refcnt := refcnt udev - 1\<rparr>, tr)"
  by (simp add: macb_uio_release_def Let_def)

lemma opens_while_positive:
  "0 < sint (refcnt udev) \<Longrightarrow>
   \<forall>k \<in> {1..length kts}. 0 < sint (refcnt udev + of_nat k) \<Longrightarrow>
   snd (session_run (map Open kts) (udev, tr)) = tr"
proof (induction kts arbitrary: udev)
  case Nil
  then show ?case by simp
next
  case (Cons kt kts)
  let ?u = "udev\<lparr>refcnt := refcnt udev + 1\<rparr>"
  from Cons.prems(1) have nz: "refcnt udev + 1 \<noteq> 1" by auto
  have step: "session_step (Open kt) (udev, tr) = (?u, tr)"
    using nz by (simp add: open_later)
  have pos: "0 < sint (refcnt ?u)"
  proof -
    have "1 \<in> {1..length (kt # kts)}" by simp
    with Cons.prems(2) have "0 < sint (refcnt udev + of_nat 1)" by blast
    then show ?thesis by simp
  qed
  have rest: "\<forall>k \<in> {1..length kts}. 0 < sint (refcnt ?u + of_nat k)"
  proof
    fix k assume "k \<in> {1..length kts}"
    then have "Suc k \<in> {1..length (kt # kts)}" by simp
    with Cons.prems(2) have "0 < sint (refcnt udev + of_nat (Suc k))" by blast
    then show "0 < sint (refcnt ?u + of_nat k)" by (simp add: ac_simps)
  qed
  show ?case
    using Cons.IH [OF pos rest] step by simp
qed

section \<open>Opening\<close>

text \<open>
  Claim C1. An \<open>open\<close> whose incremented count equals 1 makes exactly the
  calls that create, bind and wake one poll thread and stores the thread in
  \<open>poll_task\<close>; an \<open>open\<close> whose incremented count is greater than 1 only
  changes the count. In a sequence of \<open>open\<close> calls after each of which the
  count is positive, at most one poll thread is woken.
\<close>

theorem open_starts_one_worker:
  "(refcnt udev + 1 = 1 \<longrightarrow>
      macb_uio_open kt udev tr =
        (0, udev\<lparr>refcnt := 1, poll_task := kt\<rparr>,
         tr @ [Kthread_create kt, Kthread_bind kt 0, Wake_up_process kt])) \<and>
   (1 < sint (refcnt udev + 1) \<longrightarrow>
      macb_uio_open kt udev tr = (0, udev\<lparr>refcnt := refcnt udev + 1\<rparr>, tr)) \<and>
   ((\<forall>k \<in> {1..length kts}. 0 < sint (refcnt udev + of_nat k)) \<longrightarrow>
      workers_started (snd (session_run (map Open kts) (udev, tr))) \<le> workers_started tr + 1)"
proof (intro conjI impI)
  assume "refcnt udev + 1 = 1"
  then show "macb_uio_open kt udev tr =
        (0, udev\<lparr>refcnt := 1, poll_task := kt\<rparr>,
         tr @ [Kthread_create kt, Kthread_bind kt 0, Wake_up_process kt])"
    by (rule open_first)
next
  assume "1 < sint (refcnt udev + 1)"
  then have "refcnt udev + 1 \<noteq> 1" by auto
  then show "macb_uio_open kt udev tr = (0, udev\<lparr>refcnt := refcnt udev + 1\<rparr>, tr)"
    by (rule open_later)
next
  assume pos: "\<forall>k \<in> {1..length kts}. 0 < sint (refcnt udev + of_nat k)"
  show "workers_started (snd (session_run (map Open kts) (udev, tr))) \<le> workers_started tr + 1"
  proof (cases kts)
    case Nil
    then show ?thesis by simp
  next
    case (Cons kt' kts')
    obtain u1 tr1 where s1: "session_step (Open kt') (udev, tr) = (u1, tr1)"
      by (cases "session_step (Open kt') (udev, tr)")
    have r1: "refcnt u1 = refcnt udev + 1"
      using s1 by (auto simp: macb_uio_open_def Let_def split: if_splits)
    have w1: "workers_started tr1 \<le> workers_started tr + 1"
      using s1 by (auto simp: macb_uio_open_def Let_def workers_started_def split: if_splits)
    have p1: "0 < sint (refcnt u1)"
    proof -
      have "1 \<in> {1..length kts}" using Cons by simp
      with pos have "0 < sint (refcnt udev + of_nat 1)" by blast
      then show ?thesis by (simp add: r1)
    qed
    have rest: "\<forall>k \<in> {1..length kts'}. 0 < sint (refcnt u1 + of_nat k)"
    proof
      fix k assume "k \<in> {1..length kts'}"
      then have "Suc k \<in> {1..length kts}" using Cons by simp
      with pos have "0 < sint (refcnt udev + of_nat (Suc k))" by blast
      then show "0 < sint (refcnt u1 + of_nat k)" by (simp add: r1 ac_simps)
    qed
    have "snd (session_run (map Open kts') (u1, tr1)) = tr1"
      using opens_while_positive [OF p1 rest] .
    then show ?thesis using Cons s1 w1 by simp
  qed
qed

theorem open_starts_one_worker_witness:
  "macb_uio_open (Task 1) (udev_after_probe \<lparr>mem = []\<rparr>) [] =
     (0, \<lparr>info = \<lparr>mem = []\<rparr>, refcnt = 1, poll_task = Task 1\<rparr>,
      [Kthread_create (Task 1), Kthread_bind (Task 1) 0, Wake_up_process (Task 1)]) \<and>
   macb_uio_open (Task 2) \<lparr>info = \<lparr>mem = []\<rparr>, refcnt = 1, poll_task = Task 1\<rparr> [] =
     (0, \<lparr>info = \<lparr>mem = []\<rparr>, refcnt = 2, poll_task = Task 1\<rparr>, []) \<and>
   workers_started (snd (session_run (map Open [Task 1, Task 2, Task 3])
     (udev_after_probe \<lparr>mem = []\<rparr>, []))) \<le> 1"
proof -
  let ?u0 = "udev_after_probe \<lparr>mem = []\<rparr>"
  let ?u1 = "\<lparr>info = \<lparr>mem = []\<rparr>, refcnt = 1, poll_task = Task 1\<rparr>"
  note A = open_starts_one_worker [of ?u0 "Task 1" "[]" "[Task 1, Task 2, Task 3]"]
  note B = open_starts_one_worker [of ?u1 "Task 2" "[]" "[]"]
  have h1: "refcnt ?u0 + 1 = 1"
    by (simp add: udev_after_probe_def)
  have h2: "1 < sint (refcnt ?u1 + 1)"
    by simp
  have h3: "\<forall>k \<in> {1..length [Task 1, Task 2, Task 3]}. 0 < sint (refcnt ?u0 + of_nat k)"
    by (auto simp: le_Suc_eq udev_after_probe_def)
  from A h1 have a: "macb_uio_open (Task 1) ?u0 [] =
      (0, ?u0\<lparr>refcnt := 1, poll_task := Task 1\<rparr>,
       [] @ [Kthread_create (Task 1), Kthread_bind (Task 1) 0, Wake_up_process (Task 1)])"
    by blast
  from B h2 have b: "macb_uio_open (Task 2) ?u1 [] = (0, ?u1\<lparr>refcnt := refcnt ?u1 + 1\<rparr>, [])"
    by blast
  from A h3 have c: "workers_started (snd (session_run (map Open [Task 1, Task 2, Task 3]) (?u0, [])))
      \<le> workers_started [] + 1"
    by blast
  from a have a': "macb_uio_open (Task 1) ?u0 [] =
     (0, \<lparr>info = \<lparr>mem = []\<rparr>, refcnt = 1, poll_task = Task 1\<rparr>,
      [Kthread_create (Task 1), Kthread_bind (Task 1) 0, Wake_up_process (Task 1)])"
    by (simp add: udev_after_probe_def)
  from b have b': "macb_uio_open (Task 2) ?u1 [] =
     (0, \<lparr>info = \<lparr>mem = []\<rparr>, refcnt = 2, poll_task = Task 1\<rparr>, [])"
    by simp
  from c have c': "workers_started (snd (session_run (map Open [Task 1, Task 2, Task 3]) (?u0, []))) \<le> 1"
    by (simp add: workers_started_def)
  from a' b' c' show ?thesis by blast
qed

text \<open>
  Claim C9: when the poll thread cannot be started on the transition from 0 to
  1, \<open>open\<close> reports the failure to its caller, with the count left
  incremented. The code misses the first half. \<open>macb_uio_open\<close> does not test
  what \<open>kthread_create\<close> answered: with the answer \<open>ERR_PTR(-ENOMEM)\<close> on a
  freshly probed device it stores the error pointer in \<open>poll_task\<close> and hands
  it to \<open>kthread_bind\<close> and to \<open>wake_up_process\<close>, both of which
  dereference the task they are given. The count is left at 1. The result 0 below
  is that of the only \<open>return\<close> statement the function has, in a model that
  records those two calls and does not run them; no error code is produced on
  any path.
\<close>

theorem open_passes_error_pointer_on:
  "IS_ERR (ERR_PTR (- ENOMEM)) \<and>
   refcnt (udev_after_probe \<lparr>mem = []\<rparr>) = 0 \<and>
   macb_uio_open (ERR_PTR (- ENOMEM)) (udev_after_probe \<lparr>mem = []\<rparr>) [] =
     (0, \<lparr>info = \<lparr>mem = []\<rparr>, refcnt = 1, poll_task = ERR_PTR (- ENOMEM)\<rparr>,
      [Kthread_create (ERR_PTR (- ENOMEM)), Kthread_bind (ERR_PTR (- ENOMEM)) 0,
       Wake_up_process (ERR_PTR (- ENOMEM))])"
  by (simp add: macb_uio_open_def udev_after_probe_def ERR_PTR_def ENOMEM_def)

section \<open>Releasing\<close>

text \<open>
  Claim C2, as the specification states it: a \<open>close\<close> at count 0 fails and
  leaves the state unchanged, and the count never becomes negative. On a freshly
  probed device \<open>macb_uio_release\<close> returns 0 and leaves the count at \<open>-1\<close>.
\<close>

theorem release_at_zero_counterexample:
  "macb_uio_release (udev_after_probe \<lparr>mem = []\<rparr>) [] =
     (0, \<lparr>info = \<lparr>mem = []\<rparr>, refcnt = - 1, poll_task = NULL_task\<rparr>, []) \<and>
   refcnt (udev_after_probe \<lparr>mem = []\<rparr>) = 0 \<and>
   sint (refcnt (fst (snd (macb_uio_release (udev_after_probe \<lparr>mem = []\<rparr>) [])))) = - 1"
  by (simp add: macb_uio_release_def udev_after_probe_def)

text \<open>
  Claim C2, amended. A \<open>close\<close> at a count of 0 or below (above the least
  \<open>int\<close>) returns 0, makes no call and decrements the count, which so becomes
  negative; there is no \<open>NotOpen\<close> result.
\<close>

theorem release_at_or_below_zero:
  "sint (refcnt udev) \<le> 0 \<Longrightarrow> - 2147483648 < sint (refcnt udev) \<Longrightarrow>
   macb_uio_release udev tr = (0, udev\<lparr>refcnt := refcnt udev - 1\<rparr>, tr) \<and>
   sint (refcnt udev - 1) = sint (refcnt udev) - 1"
  by (auto simp: macb_uio_release_def Let_def sint_dec)

theorem release_at_or_below_zero_witness:
  "sint (refcnt (udev_after_probe \<lparr>mem = []\<rparr>)) \<le> 0 \<and>
   - 2147483648 < sint (refcnt (udev_after_probe \<lparr>mem = []\<rparr>)) \<and>
   macb_uio_release (udev_after_probe \<lparr>mem = []\<rparr>) [] =
     (0, \<lparr>info = \<lparr>mem = []\<rparr>, refcnt = - 1, poll_task = NULL_task\<rparr>, [])"
proof -
  let ?u = "udev_after_probe \<lparr>mem = []\<rparr>"
  have h1: "sint (refcnt ?u) \<le> 0" by (simp add: udev_after_probe_def)
  have h2: "- 2147483648 < sint (refcnt ?u)" by (simp add: udev_after_probe_def)
  from release_at_or_below_zero [OF h1 h2, of "[]"]
  have "macb_uio_release ?u [] = (0, ?u\<lparr>refcnt := refcnt ?u - 1\<rparr>, [])" by blast
  then have "macb_uio_release ?u [] =
     (0, \<lparr>info = \<lparr>mem = []\<rparr>, refcnt = - 1, poll_task = NULL_task\<rparr>, [])"
    by (simp add: udev_after_probe_def)
  with h1 h2 show ?thesis by blast
qed

text \<open>
  Claim C3, as the specification states it: the \<open>close\<close> that brings the count
  to 0 clears the worker handle. With the count at 1 and \<open>poll_task\<close> holding a
  thread, \<open>macb_uio_release\<close> stops that thread and \<open>poll_task\<close> still holds
  it afterwards.
\<close>

theorem release_keeps_handle_counterexample:
  "0 < sint (refcnt \<lparr>info = \<lparr>mem = []\<rparr>, refcnt = 1, poll_task = Task 7\<rparr>) \<and>
   macb_uio_release \<lparr>info = \<lparr>mem = []\<rparr>, refcnt = 1, poll_task = Task 7\<rparr> [] =
     (0, \<lparr>info = \<lparr>mem = []\<rparr>, refcnt = 0, poll_task = Task 7\<rparr>, [Kthread_stop (Task 7)]) \<and>
   poll_task (fst (snd (macb_uio_release
     \<lparr>info = \<lparr>mem = []\<rparr>, refcnt = 1, poll_task = Task 7\<rparr> []))) \<noteq> NULL_task"
  by (simp add: macb_uio_release_def)

text \<open>
  Claim C3, amended. A \<open>close\<close> at a positive count decrements it. If the new
  count is 0 it calls \<open>kthread_stop\<close> on the stored thread, which stops and
  joins it, and leaves \<open>poll_task\<close> as it was; if the new count is greater than
  0 it changes nothing but the count.
\<close>

theorem release_positive:
  "0 < sint (refcnt udev) \<Longrightarrow>
   sint (refcnt udev - 1) = sint (refcnt udev) - 1 \<and>
   (refcnt udev - 1 = 0 \<longrightarrow>
      macb_uio_release udev tr =
        (0, udev\<lparr>refcnt := 0\<rparr>, tr @ [Kthread_stop (poll_task udev)])) \<and>
   (0 < sint (refcnt udev - 1) \<longrightarrow>
      macb_uio_release udev tr = (0, udev\<lparr>refcnt := refcnt udev - 1\<rparr>, tr))"
proof (intro conjI impI)
  assume pos: "0 < sint (refcnt udev)"
  then show "sint (refcnt udev - 1) = sint (refcnt udev) - 1"
    by (simp add: sint_dec)
  show "macb_uio_release udev tr =
      (0, udev\<lparr>refcnt := 0\<rparr>, tr @ [Kthread_stop (poll_task udev)])"
    if "refcnt udev - 1 = 0"
    using that by (rule release_last)
  show "macb_uio_release udev tr = (0, udev\<lparr>refcnt := refcnt udev - 1\<rparr>, tr)"
    if "0 < sint (refcnt udev - 1)"
  proof -
    from that have "refcnt udev - 1 \<noteq> 0" by auto
    then show ?thesis by (rule release_other)
  qed
qed

theorem release_positive_witness:
  "macb_uio_release \<lparr>info = \<lparr>mem = []\<rparr>, refcnt = 1, poll_task = Task 7\<rparr> [] =
     (0, \<lparr>info = \<lparr>mem = []\<rparr>, refcnt = 0, poll_task = Task 7\<rparr>, [Kthread_stop (Task 7)]) \<and>
   macb_uio_release \<lparr>info = \<lparr>mem = []\<rparr>, refcnt = 2, poll_task = Task 7\<rparr> [] =
     (0, \<lparr>info = \<lparr>mem = []\<rparr>, refcnt = 1, poll_task = Task 7\<rparr>, [])"
proof -
  let ?u1 = "\<lparr>info = \<lparr>mem = []\<rparr>, refcnt = 1, poll_task = Task 7\<rparr>"
  let ?u2 = "\<lparr>info = \<lparr>mem = []\<rparr>, refcnt = 2, poll_task = Task 7\<rparr>"
  have p1: "0 < sint (refcnt ?u1)" by simp
  have p2: "0 < sint (refcnt ?u2)" by simp
  have z1: "refcnt ?u1 - 1 = 0" by simp
  have z2: "0 < sint (refcnt ?u2 - 1)" by simp
  from release_positive [OF p1, of "[]"] z1
  have a: "macb_uio_release ?u1 [] = (0, ?u1\<lparr>refcnt := 0\<rparr>, [] @ [Kthread_stop (poll_task ?u1)])"
    by blast
  from release_positive [OF p2, of "[]"] z2
  have b: "macb_uio_release ?u2 [] = (0, ?u2\<lparr>refcnt := refcnt ?u2 - 1\<rparr>, [])"
    by blast
  from a b show ?thesis by simp
qed

section \<open>The session invariant\<close>

lemma running_workers_snoc:
  "running_workers (tr @ [c]) = track_worker (running_workers tr) c"
  by (simp add: running_workers_def)

lemma running_workers_open:
  "running_workers (tr @ [Kthread_create kt, Kthread_bind kt 0, Wake_up_process kt]) =
     (if is_task kt then running_workers tr @ [kt] else running_workers tr)"
  by (simp add: running_workers_def)

lemma session_inv_step:
  assumes inv: "session_inv n s" and n: "n < 2147483647" and ok: "creation_succeeds x"
  shows "session_inv (Suc n) (session_step x s)"
proof -
  obtain udev tr where s: "s = (udev, tr)" by (cases s)
  from inv s have lo: "- int n \<le> sint (refcnt udev)" and hi: "sint (refcnt udev) \<le> int n"
    and run: "running_workers tr = (if 0 < sint (refcnt udev) then [poll_task udev] else [])"
    and tk: "0 < sint (refcnt udev) \<longrightarrow> is_task (poll_task udev)"
    by (simp_all add: session_inv_def)
  show ?thesis
  proof (cases x)
    case (Open kt)
    with ok have kt: "is_task kt" by simp
    from hi n have inc: "sint (refcnt udev + 1) = sint (refcnt udev) + 1"
      by (simp add: sint_inc)
    show ?thesis
    proof (cases "refcnt udev + 1 = 1")
      case True
      then have z: "refcnt udev = 0" by simp
      with run have "running_workers tr = []" by simp
      then show ?thesis
        using True Open s kt z
        by (simp add: session_inv_def open_first running_workers_open)
    next
      case False
      then have nz: "refcnt udev \<noteq> 0" by simp
      then have "sint (refcnt udev) \<noteq> 0" by (simp add: signed_eq_0_iff)
      then show ?thesis
        using False Open s lo hi run tk inc
        by (auto simp: session_inv_def open_later)
    qed
  next
    case Close
    from lo n have dec: "sint (refcnt udev - 1) = sint (refcnt udev) - 1"
      by (simp add: sint_dec)
    show ?thesis
    proof (cases "refcnt udev - 1 = 0")
      case True
      then have one: "refcnt udev = 1" by simp
      with run have "running_workers tr = [poll_task udev]" by simp
      then show ?thesis
        using True Close s
        by (simp add: session_inv_def release_last running_workers_snoc)
    next
      case False
      then have "sint (refcnt udev - 1) \<noteq> 0" by (simp only: signed_eq_0_iff not_False_eq_True)
      then show ?thesis
        using False Close s lo hi run tk dec
        by (auto simp: session_inv_def release_other)
    qed
  qed
qed

lemma session_inv_run:
  "session_inv n s \<Longrightarrow> n + length ops < 2147483648 \<Longrightarrow> list_all creation_succeeds ops \<Longrightarrow>
   session_inv (n + length ops) (session_run ops s)"
proof (induction ops arbitrary: n s)
  case Nil
  then show ?case by simp
next
  case (Cons x xs)
  from Cons.prems have "session_inv (Suc n) (session_step x s)"
    by (intro session_inv_step) simp_all
  moreover from Cons.prems have "Suc n + length xs < 2147483648" by simp
  moreover from Cons.prems have "list_all creation_succeeds xs" by simp
  ultimately have "session_inv (Suc n + length xs) (session_run xs (session_step x s))"
    by (rule Cons.IH)
  then show ?case by simp
qed

lemma session_inv_init: "session_inv 0 (udev_after_probe uinfo, [])"
  by (simp add: session_inv_def udev_after_probe_def running_workers_def)

text \<open>
  Claim C4, as the specification states it: the worker handle is present if
  and only if the count is positive. After \<open>open\<close> and \<open>close\<close> on a freshly
  probed device the count is 0 and \<open>poll_task\<close> still holds the stopped
  thread.
\<close>

theorem handle_outlives_count_counterexample:
  "sint (refcnt (fst (session_run [Open (Task 1), Close] (udev_after_probe \<lparr>mem = []\<rparr>, [])))) = 0 \<and>
   poll_task (fst (session_run [Open (Task 1), Close] (udev_after_probe \<lparr>mem = []\<rparr>, []))) = Task 1"
  by (simp add: macb_uio_open_def macb_uio_release_def udev_after_probe_def)

text \<open>
  Claim C4, amended. After any sequence of fewer than \<open>2^31\<close> \<open>open\<close> and
  \<open>close\<close> calls on a freshly probed device, in which every thread creation
  succeeds, a poll thread is running if and only if the count is positive, and
  then it is the one thread stored in \<open>poll_task\<close> (which is then not
  \<open>NULL\<close>). Nothing is said of \<open>poll_task\<close> while the count is not positive.
\<close>

theorem worker_runs_iff_count_positive:
  "length ops < 2147483648 \<Longrightarrow> list_all creation_succeeds ops \<Longrightarrow>
   session_run ops (udev_after_probe uinfo, []) = (udev, tr) \<Longrightarrow>
   running_workers tr = (if 0 < sint (refcnt udev) then [poll_task udev] else []) \<and>
   (0 < sint (refcnt udev) \<longrightarrow> poll_task udev \<noteq> NULL_task)"
proof -
  assume len: "length ops < 2147483648" and ok: "list_all creation_succeeds ops"
    and run: "session_run ops (udev_after_probe uinfo, []) = (udev, tr)"
  have "session_inv (0 + length ops) (session_run ops (udev_after_probe uinfo, []))"
    using len ok by (intro session_inv_run session_inv_init) simp_all
  with run have inv: "session_inv (length ops) (udev, tr)" by simp
  then have "running_workers tr = (if 0 < sint (refcnt udev) then [poll_task udev] else [])"
    by (simp add: session_inv_def)
  moreover from inv have "0 < sint (refcnt udev) \<longrightarrow> poll_task udev \<noteq> NULL_task"
    by (auto simp: session_inv_def)
  ultimately show ?thesis by blast
qed

theorem worker_runs_iff_count_positive_witness:
  "length [Open (Task 1), Open (Task 2), Close] < 2147483648 \<and>
   list_all creation_succeeds [Open (Task 1), Open (Task 2), Close] \<and>
   session_run [Open (Task 1), Open (Task 2), Close] (udev_after_probe \<lparr>mem = []\<rparr>, []) =
     (\<lparr>info = \<lparr>mem = []\<rparr>, refcnt = 1, poll_task = Task 1\<rparr>,
      [Kthread_create (Task 1), Kthread_bind (Task 1) 0, Wake_up_process (Task 1)]) \<and>
   running_workers [Kthread_create (Task 1), Kthread_bind (Task 1) 0, Wake_up_process (Task 1)] =
     [Task 1]"
proof -
  let ?ops = "[Open (Task 1), Open (Task 2), Close]"
  let ?u = "\<lparr>info = \<lparr>mem = []\<rparr>, refcnt = 1, poll_task = Task 1\<rparr>"
  let ?tr = "[Kthread_create (Task 1), Kthread_bind (Task 1) 0, Wake_up_process (Task 1)]"
  have h1: "length ?ops < 2147483648" by simp
  have h2: "list_all creation_succeeds ?ops" by simp
  have h3: "session_run ?ops (udev_after_probe \<lparr>mem = []\<rparr>, []) = (?u, ?tr)"
    by (simp add: macb_uio_open_def macb_uio_release_def udev_after_probe_def)
  from worker_runs_iff_count_positive [OF h1 h2 h3]
  have "running_workers ?tr = [Task 1]" by simp
  with h1 h2 h3 show ?thesis by blast
qed

section \<open>Page arithmetic\<close>

lemma page_size_minus_1: "PAGE_SIZE ps - 1 = mask ps"
  by (simp add: PAGE_SIZE_def mask_eq_exp_minus_1 push_bit_eq_mult)

lemma and_page_mask: "a AND PAGE_MASK ps = push_bit ps (drop_bit ps a)"
  unfolding PAGE_MASK_def page_size_minus_1
  by (rule bit_eqI) (auto simp: bit_simps)

lemma unat_and_page_mask: "unat (a AND PAGE_MASK ps) = (unat a div 2 ^ ps) * 2 ^ ps"
proof -
  have le: "(unat a div 2 ^ ps) * 2 ^ ps \<le> unat a"
    by (simp add: div_times_less_eq_dividend)
  have "unat a < 2 ^ 64" using unsigned_less [of a] by simp
  with le have lt: "(unat a div 2 ^ ps) * 2 ^ ps < 2 ^ 64" by (rule le_less_trans)
  have "unat (push_bit ps (drop_bit ps a)) = take_bit 64 (push_bit ps (drop_bit ps (unat a)))"
    by (simp add: unsigned_push_bit_eq unat_drop_bit_eq)
  also have "\<dots> = take_bit 64 ((unat a div 2 ^ ps) * 2 ^ ps)"
    by (simp add: push_bit_eq_mult drop_bit_eq_div)
  also have "\<dots> = (unat a div 2 ^ ps) * 2 ^ ps"
    using lt by (simp add: take_bit_nat_eq_self)
  finally show ?thesis by (simp add: and_page_mask)
qed

lemma unat_page_align:
  assumes "ps < 64" and "unat x + 2 ^ ps - 1 < 2 ^ 64"
  shows "unat (PAGE_ALIGN ps x) = ((unat x + 2 ^ ps - 1) div 2 ^ ps) * 2 ^ ps"
proof -
  have m: "unat (mask ps :: 64 word) = 2 ^ ps - 1"
  proof -
    have "uint (mask ps :: 64 word) = (mask ps :: int)"
      using assms(1) by (simp add: uint_mask_eq min_def)
    also have "(mask ps :: int) = 2 ^ ps - 1"
      by (rule mask_eq_exp_minus_1)
    finally have "uint (mask ps :: 64 word) = 2 ^ ps - 1" .
    then have "unat (mask ps :: 64 word) = nat (2 ^ ps - 1)"
      by (simp add: unat_eq_nat_uint)
    also have "\<dots> = 2 ^ ps - 1"
      by (simp add: nat_diff_distrib nat_power_eq)
    finally show ?thesis .
  qed
  have "unat (x + mask ps) = unat x + unat (mask ps :: 64 word)"
    using assms(2) m by (intro unat_add_lem [THEN iffD1]) simp
  then have "unat (x + mask ps) = unat x + 2 ^ ps - 1"
    using m by simp
  then show ?thesis
    by (simp add: PAGE_ALIGN_def page_size_minus_1 unat_and_page_mask)
qed

section \<open>Mapping\<close>

lemma overwrite_region:
  "(r :: uio_mem)\<lparr>memtype := t, addr := a, size_mem := sz, name := nm, internal_addr := p\<rparr> =
   \<lparr>name = nm, addr = a, size_mem = sz, memtype = t, internal_addr = p\<rparr>"
  by (cases r) simp

lemma setup_loop_absent:
  "i < n \<Longrightarrow> platform_get_resource dev i = None \<Longrightarrow>
   macb_uio_setup_iomem_loop ps n ioremap dev i iom m tr =
   macb_uio_setup_iomem_loop ps n ioremap dev (i + 1) iom m tr"
  by (subst macb_uio_setup_iomem_loop.simps) simp

lemma setup_loop_present:
  "i < n \<Longrightarrow> platform_get_resource dev i = Some res \<Longrightarrow> iom < length m \<Longrightarrow>
   macb_uio_setup_iomem_loop ps n ioremap dev i iom m tr =
   macb_uio_setup_iomem_loop ps n ioremap dev (i + 1) (iom + 1)
     (m[iom := region_of ps ioremap res]) (tr @ [ioremap_call ps ioremap res])"
  by (subst macb_uio_setup_iomem_loop.simps)
     (simp add: Let_def overwrite_region region_of_def ioremap_call_def)

lemma setup_loop_done:
  "\<not> i < n \<Longrightarrow> macb_uio_setup_iomem_loop ps n ioremap dev i iom m tr = (iom, m, tr)"
  by (subst macb_uio_setup_iomem_loop.simps) simp

lemma setup_loop_result:
  "iom + (n - i) \<le> length m \<Longrightarrow>
   macb_uio_setup_iomem_loop ps n ioremap dev i iom m tr =
     (iom + length (List.map_filter (platform_get_resource dev) [i..<n]),
      take iom m @ map (region_of ps ioremap) (List.map_filter (platform_get_resource dev) [i..<n]) @
        drop (iom + length (List.map_filter (platform_get_resource dev) [i..<n])) m,
      tr @ map (ioremap_call ps ioremap) (List.map_filter (platform_get_resource dev) [i..<n]))"
proof (induction "n - i" arbitrary: i iom m tr)
  case 0
  then have "\<not> i < n" by simp
  then show ?case by (simp add: setup_loop_done map_filter_simps)
next
  case (Suc k)
  then have lt: "i < n" and k: "k = n - (i + 1)" by simp_all
  have upt: "[i..<n] = i # [i + 1..<n]" using lt by (simp add: upt_conv_Cons)
  show ?case
  proof (cases "platform_get_resource dev i")
    case None
    have "iom + (n - (i + 1)) \<le> length m" using Suc.prems by simp
    from Suc.hyps(1) [OF k this] show ?thesis
      using lt None by (simp add: setup_loop_absent upt map_filter_simps)
  next
    case (Some res)
    let ?m = "m[iom := region_of ps ioremap res]"
    have iom: "iom < length m" using Suc.prems lt by simp
    have "iom + 1 + (n - (i + 1)) \<le> length ?m" using Suc.prems lt by simp
    from Suc.hyps(1) [OF k this]
    have "macb_uio_setup_iomem_loop ps n ioremap dev (i + 1) (iom + 1) ?m
            (tr @ [ioremap_call ps ioremap res]) =
      (iom + 1 + length (List.map_filter (platform_get_resource dev) [i + 1..<n]),
       take (iom + 1) ?m @
         map (region_of ps ioremap) (List.map_filter (platform_get_resource dev) [i + 1..<n]) @
         drop (iom + 1 + length (List.map_filter (platform_get_resource dev) [i + 1..<n])) ?m,
       (tr @ [ioremap_call ps ioremap res]) @
         map (ioremap_call ps ioremap) (List.map_filter (platform_get_resource dev) [i + 1..<n]))" .
    moreover have "take (iom + 1) ?m = take iom m @ [region_of ps ioremap res]"
      using iom by (simp add: take_Suc_conv_app_nth)
    moreover have "drop (iom + 1 + j) ?m = drop (iom + 1 + j) m" for j
      by simp
    ultimately show ?thesis
      using lt Some iom by (simp add: setup_loop_present upt map_filter_simps)
  qed
qed

lemma setup_iomem_result:
  "length (mem uinfo) = n \<Longrightarrow>
   macb_uio_setup_iomem ps n ioremap dev uinfo tr =
     ((if present_resources dev n = [] then - ENOENT else 0),
      uinfo\<lparr>mem := map (region_of ps ioremap) (present_resources dev n) @
                     drop (length (present_resources dev n)) (mem uinfo)\<rparr>,
      tr @ map (ioremap_call ps ioremap) (present_resources dev n))"
  by (simp add: macb_uio_setup_iomem_def setup_loop_result present_resources_def)

text \<open>
  Claim C8. For an array of \<open>max_uio_maps\<close> entries, setup writes the
  regions of the present resource slots to the entries \<open>0, 1, ...\<close> in the order
  of the slots and leaves the other entries alone. The address of each region is
  the start of its slot cleared below the page size, that is the largest
  multiple of the page size not above it; its size is \<open>PAGE_ALIGN\<close> of the
  size of the slot, that is (when this fits into 64 bits) the least multiple of
  the page size not below it.
\<close>

theorem setup_records_regions:
  "length (mem uinfo) = n \<Longrightarrow> ps < 64 \<Longrightarrow>
   macb_uio_setup_iomem ps n ioremap dev uinfo tr = (ret, uinfo', tr') \<Longrightarrow>
   take (length (present_resources dev n)) (mem uinfo') =
     map (region_of ps ioremap) (present_resources dev n) \<and>
   drop (length (present_resources dev n)) (mem uinfo') =
     drop (length (present_resources dev n)) (mem uinfo) \<and>
   (\<forall>res \<in> set (present_resources dev n).
      addr (region_of ps ioremap res) = start res AND PAGE_MASK ps \<and>
      unat (addr (region_of ps ioremap res)) = (unat (start res) div 2 ^ ps) * 2 ^ ps \<and>
      size_mem (region_of ps ioremap res) = PAGE_ALIGN ps (resource_size res) \<and>
      (unat (resource_size res) + 2 ^ ps - 1 < 2 ^ 64 \<longrightarrow>
         unat (size_mem (region_of ps ioremap res)) =
           ((unat (resource_size res) + 2 ^ ps - 1) div 2 ^ ps) * 2 ^ ps))"
  by (auto simp: setup_iomem_result region_of_def unat_and_page_mask unat_page_align)

theorem setup_records_regions_witness:
  "macb_uio_setup_iomem 12 3 (\<lambda>a s. 0xffff800010000000 + a)
     \<lparr>mem_resources = [Some \<lparr>start = 0x2800a040, end_res = 0x2800a0ff\<rparr>, None,
                       Some \<lparr>start = 0x2800c000, end_res = 0x2800dfff\<rparr>], drvdata = None\<rparr>
     \<lparr>mem = [zeroed_mem, zeroed_mem, zeroed_mem]\<rparr> [] =
   (0,
    \<lparr>mem = [\<lparr>name = ''macb_regs'', addr = 0x2800a000, size_mem = 0x1000,
              memtype = UIO_MEM_PHYS, internal_addr = 0xffff80003800a000\<rparr>,
             \<lparr>name = ''macb_regs'', addr = 0x2800c000, size_mem = 0x2000,
              memtype = UIO_MEM_PHYS, internal_addr = 0xffff80003800c000\<rparr>, zeroed_mem]\<rparr>,
    [Ioremap 0x2800a000 0x1000 0xffff80003800a000, Ioremap 0x2800c000 0x2000 0xffff80003800c000]) \<and>
   present_resources
     \<lparr>mem_resources = [Some \<lparr>start = 0x2800a040, end_res = 0x2800a0ff\<rparr>, None,
                       Some \<lparr>start = 0x2800c000, end_res = 0x2800dfff\<rparr>], drvdata = None\<rparr> 3 =
     [\<lparr>start = 0x2800a040, end_res = 0x2800a0ff\<rparr>, \<lparr>start = 0x2800c000, end_res = 0x2800dfff\<rparr>] \<and>
   unat (resource_size \<lparr>start = 0x2800a040, end_res = 0x2800a0ff\<rparr>) + 2 ^ 12 - 1 < 2 ^ 64 \<and>
   unat (size_mem (region_of 12 (\<lambda>a s. 0xffff800010000000 + a)
     \<lparr>start = 0x2800a040, end_res = 0x2800a0ff\<rparr>)) = 4096"
proof -
  let ?io = "\<lambda>(a :: phys_addr_t) (s :: resource_size_t). (0xffff800010000000 :: iomem_ptr) + a"
  let ?r0 = "\<lparr>start = 0x2800a040, end_res = 0x2800a0ff\<rparr>"
  let ?r2 = "\<lparr>start = 0x2800c000, end_res = 0x2800dfff\<rparr>"
  let ?dev = "\<lparr>mem_resources = [Some ?r0, None, Some ?r2], drvdata = None\<rparr>"
  let ?inf = "\<lparr>mem = [zeroed_mem, zeroed_mem, zeroed_mem]\<rparr>"
  let ?res = "(0 :: int,
    \<lparr>mem = [\<lparr>name = ''macb_regs'', addr = 0x2800a000, size_mem = 0x1000,
              memtype = UIO_MEM_PHYS, internal_addr = 0xffff80003800a000\<rparr>,
             \<lparr>name = ''macb_regs'', addr = 0x2800c000, size_mem = 0x2000,
              memtype = UIO_MEM_PHYS, internal_addr = 0xffff80003800c000\<rparr>, zeroed_mem]\<rparr>,
    [Ioremap 0x2800a000 0x1000 0xffff80003800a000, Ioremap 0x2800c000 0x2000 0xffff80003800c000])"
  have h1: "length (mem ?inf) = 3" by simp
  have h2: "(12 :: nat) < 64" by simp
  have h3: "macb_uio_setup_iomem 12 3 ?io ?dev ?inf [] = ?res"
    by (simp add: setup_iomem_result present_resources_def platform_get_resource_def
        map_filter_simps upt_conv_Cons region_of_def ioremap_call_def resource_size_def
        PAGE_ALIGN_def PAGE_MASK_def PAGE_SIZE_def)
  have p: "present_resources ?dev 3 = [?r0, ?r2]"
    by (simp add: present_resources_def platform_get_resource_def map_filter_simps upt_conv_Cons)
  have g: "unat (resource_size ?r0) + 2 ^ 12 - 1 < 2 ^ 64"
    by (simp add: resource_size_def)
  note A = setup_records_regions [OF h1 h2 h3]
  from A have "\<forall>res \<in> set (present_resources ?dev 3).
      unat (resource_size res) + 2 ^ 12 - 1 < 2 ^ 64 \<longrightarrow>
         unat (size_mem (region_of 12 ?io res)) =
           ((unat (resource_size res) + 2 ^ 12 - 1) div 2 ^ 12) * 2 ^ 12"
    by blast
  with p g have "unat (size_mem (region_of 12 ?io ?r0)) =
      ((unat (resource_size ?r0) + 2 ^ 12 - 1) div 2 ^ 12) * 2 ^ 12"
    by simp
  then have "unat (size_mem (region_of 12 ?io ?r0)) = 4096"
    by (simp add: resource_size_def)
  with h3 p g show ?thesis by blast
qed

text \<open>
  Claim C5, as the specification states it: a slot whose map call fails is
  skipped, and setup fails when every map call fails. With one present slot and
  an \<open>ioremap\<close> that always answers \<open>NULL\<close>, setup returns 0 and has
  recorded the slot as region 0, with a null mapped pointer.
\<close>

theorem setup_map_failure_counterexample:
  "macb_uio_setup_iomem 12 3 (\<lambda>a s. 0)
     \<lparr>mem_resources = [Some \<lparr>start = 0x2800a000, end_res = 0x2800afff\<rparr>], drvdata = None\<rparr>
     \<lparr>mem = [zeroed_mem, zeroed_mem, zeroed_mem]\<rparr> [] =
   (0,
    \<lparr>mem = [\<lparr>name = ''macb_regs'', addr = 0x2800a000, size_mem = 0x1000,
              memtype = UIO_MEM_PHYS, internal_addr = 0\<rparr>, zeroed_mem, zeroed_mem]\<rparr>,
    [Ioremap 0x2800a000 0x1000 0])"
  by (simp add: setup_iomem_result present_resources_def platform_get_resource_def
      map_filter_simps upt_conv_Cons region_of_def ioremap_call_def resource_size_def
      PAGE_ALIGN_def PAGE_MASK_def PAGE_SIZE_def)

text \<open>
  Claim C5, amended. Setup never looks at what \<open>ioremap\<close> answered: every
  present slot contributes a region, whose mapped pointer is that answer (null
  when the call failed), and setup fails with \<open>-ENOENT\<close> (that is \<open>-2\<close>)
  exactly when no slot is present.
\<close>

theorem setup_counts_present_slots:
  "length (mem uinfo) = n \<Longrightarrow>
   macb_uio_setup_iomem ps n ioremap dev uinfo tr = (ret, uinfo', tr') \<Longrightarrow>
   ret = (if present_resources dev n = [] then - 2 else 0) \<and>
   take (length (present_resources dev n)) (mem uinfo') =
     map (region_of ps ioremap) (present_resources dev n) \<and>
   map internal_addr (take (length (present_resources dev n)) (mem uinfo')) =
     map (\<lambda>res. ioremap (start res AND PAGE_MASK ps) (PAGE_ALIGN ps (resource_size res)))
       (present_resources dev n)"
  by (auto simp: setup_iomem_result ENOENT_def region_of_def)

theorem setup_counts_present_slots_witness:
  "length (mem \<lparr>mem = [zeroed_mem, zeroed_mem, zeroed_mem]\<rparr>) = 3 \<and>
   macb_uio_setup_iomem 12 3 (\<lambda>a s. if a = 0x2800a000 then 0 else 0xffff800010000000)
     \<lparr>mem_resources = [Some \<lparr>start = 0x2800a000, end_res = 0x2800afff\<rparr>, None,
                       Some \<lparr>start = 0x2800c000, end_res = 0x2800dfff\<rparr>], drvdata = None\<rparr>
     \<lparr>mem = [zeroed_mem, zeroed_mem, zeroed_mem]\<rparr> [] =
   (0,
    \<lparr>mem = [\<lparr>name = ''macb_regs'', addr = 0x2800a000, size_mem = 0x1000,
              memtype = UIO_MEM_PHYS, internal_addr = 0\<rparr>,
             \<lparr>name = ''macb_regs'', addr = 0x2800c000, size_mem = 0x2000,
              memtype = UIO_MEM_PHYS, internal_addr = 0xffff800010000000\<rparr>, zeroed_mem]\<rparr>,
    [Ioremap 0x2800a000 0x1000 0, Ioremap 0x2800c000 0x2000 0xffff800010000000]) \<and>
   present_resources
     \<lparr>mem_resources = [Some \<lparr>start = 0x2800a000, end_res = 0x2800afff\<rparr>, None,
                       Some \<lparr>start = 0x2800c000, end_res = 0x2800dfff\<rparr>], drvdata = None\<rparr> 3 \<noteq> []"
proof -
  let ?io = "\<lambda>(a :: phys_addr_t) (s :: resource_size_t).
      if a = 0x2800a000 then 0 else (0xffff800010000000 :: iomem_ptr)"
  let ?dev = "\<lparr>mem_resources = [Some \<lparr>start = 0x2800a000, end_res = 0x2800afff\<rparr>, None,
                       Some \<lparr>start = 0x2800c000, end_res = 0x2800dfff\<rparr>], drvdata = None\<rparr>"
  let ?inf = "\<lparr>mem = [zeroed_mem, zeroed_mem, zeroed_mem]\<rparr>"
  let ?res = "(0 :: int,
    \<lparr>mem = [\<lparr>name = ''macb_regs'', addr = 0x2800a000, size_mem = 0x1000,
              memtype = UIO_MEM_PHYS, internal_addr = 0\<rparr>,
             \<lparr>name = ''macb_regs'', addr = 0x2800c000, size_mem = 0x2000,
              memtype = UIO_MEM_PHYS, internal_addr = 0xffff800010000000\<rparr>, zeroed_mem]\<rparr>,
    [Ioremap 0x2800a000 0x1000 0, Ioremap 0x2800c000 0x2000 0xffff800010000000])"
  have h1: "length (mem ?inf) = 3" by simp
  have h2: "macb_uio_setup_iomem 12 3 ?io ?dev ?inf [] = ?res"
    by (simp add: setup_iomem_result present_resources_def platform_get_resource_def
        map_filter_simps upt_conv_Cons region_of_def ioremap_call_def resource_size_def
        PAGE_ALIGN_def PAGE_MASK_def PAGE_SIZE_def)
  from setup_counts_present_slots [OF h1 h2]
  have "(0 :: int) = (if present_resources ?dev 3 = [] then - 2 else 0)" by blast
  then have "present_resources ?dev 3 \<noteq> []" by (simp split: if_splits)
  with h1 h2 show ?thesis by blast
qed

section \<open>Unmapping\<close>

lemma release_iomem_loop_calls:
  "macb_uio_release_iomem_loop n i uinfo tr =
     tr @ map Iounmap (filter (\<lambda>p. p \<noteq> 0) (map (\<lambda>j. internal_addr (mem uinfo ! j)) [i..<n]))"
proof (induction n i uinfo tr rule: macb_uio_release_iomem_loop.induct)
  case (1 n i uinfo tr)
  show ?case
  proof (cases "i < n")
    case True
    then have upt: "[i..<n] = i # [i + 1..<n]" by (simp add: upt_conv_Cons)
    show ?thesis
      using True "1.IH" [OF True]
      by (subst macb_uio_release_iomem_loop.simps) (simp add: upt)
  next
    case False
    then show ?thesis
      by (subst macb_uio_release_iomem_loop.simps) simp
  qed
qed

lemma release_iomem_calls:
  "length (mem uinfo) = n \<Longrightarrow>
   macb_uio_release_iomem n uinfo tr = tr @ map Iounmap (mapped_pointers uinfo)"
proof -
  assume len: "length (mem uinfo) = n"
  have "map (\<lambda>j. internal_addr (mem uinfo ! j)) [0..<n] = map internal_addr (map ((!) (mem uinfo)) [0..<n])"
    by simp
  also have "\<dots> = map internal_addr (mem uinfo)"
    using map_nth [of "mem uinfo"] len by simp
  finally show ?thesis
    by (simp add: macb_uio_release_iomem_def release_iomem_loop_calls mapped_pointers_def)
qed

text \<open>
  Claim C6, as the specification states it: a second teardown of the same
  regions performs no unmap. \<open>macb_uio_release_iomem\<close> does not clear
  \<open>internal_addr\<close>, so the second call unmaps the same pointer again.
\<close>

theorem teardown_twice_counterexample:
  "macb_uio_release_iomem 1
     \<lparr>mem = [\<lparr>name = ''macb_regs'', addr = 0x1000, size_mem = 0x1000, memtype = UIO_MEM_PHYS,
              internal_addr = 0x8000\<rparr>]\<rparr>
     (macb_uio_release_iomem 1
        \<lparr>mem = [\<lparr>name = ''macb_regs'', addr = 0x1000, size_mem = 0x1000, memtype = UIO_MEM_PHYS,
                 internal_addr = 0x8000\<rparr>]\<rparr> []) =
   [Iounmap 0x8000, Iounmap 0x8000]"
  by (simp add: release_iomem_calls mapped_pointers_def)

text \<open>
  Claim C6, amended. Teardown calls \<open>iounmap\<close> on exactly the non-null
  \<open>internal_addr\<close> of the array, in index order, and does nothing for an
  entry whose pointer is null. It leaves the array as it is, so a second
  teardown of the same array makes the same \<open>iounmap\<close> calls again.
\<close>

theorem teardown_unmaps_mapped:
  "length (mem uinfo) = n \<Longrightarrow>
   macb_uio_release_iomem n uinfo tr = tr @ map Iounmap (mapped_pointers uinfo) \<and>
   macb_uio_release_iomem n uinfo (macb_uio_release_iomem n uinfo tr) =
     tr @ map Iounmap (mapped_pointers uinfo) @ map Iounmap (mapped_pointers uinfo)"
  by (simp add: release_iomem_calls)

theorem teardown_unmaps_mapped_witness:
  "length (mem \<lparr>mem = [zeroed_mem\<lparr>internal_addr := 0x8000\<rparr>, zeroed_mem,
                         zeroed_mem\<lparr>internal_addr := 0x9000\<rparr>]\<rparr>) = 3 \<and>
   macb_uio_release_iomem 3
     \<lparr>mem = [zeroed_mem\<lparr>internal_addr := 0x8000\<rparr>, zeroed_mem,
             zeroed_mem\<lparr>internal_addr := 0x9000\<rparr>]\<rparr> [] =
     [Iounmap 0x8000, Iounmap 0x9000]"
proof -
  let ?i = "\<lparr>mem = [zeroed_mem\<lparr>internal_addr := 0x8000\<rparr>, zeroed_mem,
                     zeroed_mem\<lparr>internal_addr := 0x9000\<rparr>]\<rparr>"
  have h: "length (mem ?i) = 3" by simp
  from teardown_unmaps_mapped [OF h, of "[]"]
  have "macb_uio_release_iomem 3 ?i [] = [] @ map Iounmap (mapped_pointers ?i)" by blast
  then have "macb_uio_release_iomem 3 ?i [] = [Iounmap 0x8000, Iounmap 0x9000]"
    by (simp add: mapped_pointers_def zeroed_mem_def)
  with h show ?thesis by blast
qed

section \<open>Removal\<close>

text \<open>
  Claim C7, as the specification states it: at count 0 removal goes on to
  unregister and unmap without invoking \<open>close\<close>. \<open>macb_uio_remove\<close> calls
  \<open>macb_uio_release\<close> whatever the count: for a freshly probed device the
  record it frees is the one \<open>macb_uio_release\<close> returned, with the count
  taken from 0 to \<open>-1\<close>.
\<close>

theorem remove_at_zero_counterexample:
  "refcnt (udev_after_probe \<lparr>mem = [zeroed_mem]\<rparr>) = 0 \<and>
   macb_uio_remove 1
     \<lparr>mem_resources = [], drvdata = Some (udev_after_probe \<lparr>mem = [zeroed_mem]\<rparr>)\<rparr> [] =
     (0, \<lparr>mem_resources = [], drvdata = None\<rparr>,
      [Sysfs_remove_group, Uio_unregister_device,
       Kfree (fst (snd (macb_uio_release (udev_after_probe \<lparr>mem = [zeroed_mem]\<rparr>) [])))]) \<and>
   refcnt (fst (snd (macb_uio_release (udev_after_probe \<lparr>mem = [zeroed_mem]\<rparr>) []))) = - 1"
  by (simp add: macb_uio_remove_def macb_uio_release_def udev_after_probe_def
      release_iomem_calls mapped_pointers_def zeroed_mem_def)

text \<open>
  Claim C7, amended. Removal of a device with driver data invokes \<open>close\<close>
  exactly once, whatever the count, and then removes the attribute group,
  unregisters, unmaps the mapped regions and frees the record that \<open>close\<close>
  left. At count 0 that \<open>close\<close> makes no worker call: it only takes the
  count to \<open>-1\<close>.
\<close>

theorem remove_with_drvdata:
  "drvdata dev = Some udev \<Longrightarrow> length (mem (info udev)) = n \<Longrightarrow>
   macb_uio_remove n dev tr =
     (0, dev\<lparr>drvdata := None\<rparr>,
      snd (snd (macb_uio_release udev tr)) @
      [Sysfs_remove_group, Uio_unregister_device] @
      map Iounmap (mapped_pointers (info udev)) @
      [Kfree (fst (snd (macb_uio_release udev tr)))]) \<and>
   (refcnt udev = 0 \<longrightarrow> macb_uio_release udev tr = (0, udev\<lparr>refcnt := - 1\<rparr>, tr))"
  by (simp add: macb_uio_remove_def macb_uio_release_def Let_def release_iomem_calls)

theorem remove_with_drvdata_witness:
  "macb_uio_remove 2
     \<lparr>mem_resources = [],
      drvdata = Some (udev_after_probe
        \<lparr>mem = [zeroed_mem\<lparr>internal_addr := 0x8000\<rparr>, zeroed_mem]\<rparr>)\<rparr> [] =
     (0, \<lparr>mem_resources = [], drvdata = None\<rparr>,
      [Sysfs_remove_group, Uio_unregister_device, Iounmap 0x8000,
       Kfree \<lparr>info = \<lparr>mem = [zeroed_mem\<lparr>internal_addr := 0x8000\<rparr>, zeroed_mem]\<rparr>,
              refcnt = - 1, poll_task = NULL_task\<rparr>])"
proof -
  let ?u = "udev_after_probe \<lparr>mem = [zeroed_mem\<lparr>internal_addr := 0x8000\<rparr>, zeroed_mem]\<rparr>"
  let ?d = "\<lparr>mem_resources = [], drvdata = Some ?u\<rparr>"
  have h1: "drvdata ?d = Some ?u" by simp
  have h2: "length (mem (info ?u)) = 2" by (simp add: udev_after_probe_def)
  have h3: "refcnt ?u = 0" by (simp add: udev_after_probe_def)
  note A = remove_with_drvdata [OF h1 h2, of "[]"]
  from A h3 have r: "macb_uio_release ?u [] = (0, ?u\<lparr>refcnt := - 1\<rparr>, [])" by blast
  from A have "macb_uio_remove 2 ?d [] =
     (0, ?d\<lparr>drvdata := None\<rparr>,
      snd (snd (macb_uio_release ?u [])) @
      [Sysfs_remove_group, Uio_unregister_device] @
      map Iounmap (mapped_pointers (info ?u)) @
      [Kfree (fst (snd (macb_uio_release ?u [])))])" by blast
  then show ?thesis
    by (simp add: r) (simp add: udev_after_probe_def mapped_pointers_def zeroed_mem_def)
qed

section \<open>Removal without driver data\<close>

text \<open>
  Claim C10. A removal request for a device with no driver data attached
  returns \<open>-EINVAL\<close> (that is \<open>-22\<close>), leaves the device as it was and makes no
  call: nothing is stopped, unregistered, unmapped or freed.
\<close>

theorem remove_without_drvdata:
  "drvdata dev = None \<Longrightarrow> macb_uio_remove max_uio_maps dev tr = (- 22, dev, tr)"
  by (simp add: macb_uio_remove_def EINVAL_def)

theorem remove_without_drvdata_witness:
  "drvdata \<lparr>mem_resources = [], drvdata = None\<rparr> = None \<and>
   macb_uio_remove 5 \<lparr>mem_resources = [], drvdata = None\<rparr> [] =
     (- 22, \<lparr>mem_resources = [], drvdata = None\<rparr>, [])"
  using remove_without_drvdata [of "\<lparr>mem_resources = [], drvdata = None\<rparr>" 5 "[]"]
  by simp

end
